theory Spec2Isabelle
  imports Complex_Main
begin

section \<open>Scene objects and the normalizer (prepareObject, centerObject)\<close>

text \<open>
  The viewer exists in two variants with the same ingestion code: the slider variant
  (frontend/src/App.tsx) and the dual-mode variant with a rotation manipulator.
  Numbers of the scene graph are JavaScript doubles; the vector type is left abstract
  (\<open>'v\<close>, with a subtraction), since nothing below depends on their arithmetic.
\<close>

datatype Material =
    MeshStandardMaterial (color: string) (roughness: rat) (metalness: rat)
  | LoaderMaterial string

text \<open>
  The fields of one scene node that the code reads or writes. A grouping node has no
  material; lines and points have one but are not meshes.
\<close>

record 'v Node =
  isMesh :: bool
  material :: "Material option"
  position :: 'v

datatype 'v Object3D = Object3D (node: "'v Node") (children: "'v Object3D list")

text \<open>
  \<open>object.traverse(callback)\<close>: the callback runs on the object itself, then the
  traversal descends into every child, in order. The callback mutates the fields of the
  node it is given.
\<close>

fun traverse :: "('v Node \<Rightarrow> 'v Node) \<Rightarrow> 'v Object3D \<Rightarrow> 'v Object3D" where
  "traverse callback (Object3D n cs) = Object3D (callback n) (map (traverse callback) cs)"

definition uniformMaterial :: Material where
  "uniformMaterial = MeshStandardMaterial ''#c6c6c6'' 0.65 0.1"

text \<open>The callback of prepareObject: only a mesh gets the new material.\<close>

definition assignMaterial :: "'v Node \<Rightarrow> 'v Node" where
  "assignMaterial child =
     (if isMesh child then child\<lparr>material := Some uniformMaterial\<rparr> else child)"

text \<open>
  The rendering library, as far as the ingestion code calls it. Every call may throw
  (an error value \<open>'e\<close>); what the calls compute is the library's business and is a
  parameter here.
\<close>

record 'v Box3 =
  box_min :: 'v
  box_max :: 'v

type_synonym ArrayBuffer = "char list"

record ('e, 'g, 'v) three =
  STLLoader_parse :: "ArrayBuffer \<Rightarrow> 'e + 'g"
  geometry_center :: "'g \<Rightarrow> 'e + 'g"
  OBJLoader_parse :: "string \<Rightarrow> 'e + 'v Object3D"
  setFromObject :: "'v Object3D \<Rightarrow> 'e + 'v Box3"
  getCenter :: "'v Box3 \<Rightarrow> 'e + 'v"

definition position_sub :: "'v::minus Object3D \<Rightarrow> 'v \<Rightarrow> 'v Object3D" where
  "position_sub obj c =
     Object3D ((node obj)\<lparr>position := position (node obj) - c\<rparr>) (children obj)"

definition centerObject ::
  "('e, 'g, 'v::minus) three \<Rightarrow> 'v Object3D \<Rightarrow> 'e + 'v Object3D" where
  "centerObject lib obj =
     (case setFromObject lib obj of
        Inl e \<Rightarrow> Inl e
      | Inr box \<Rightarrow>
          (case getCenter lib box of
             Inl e \<Rightarrow> Inl e
           | Inr center \<Rightarrow> Inr (position_sub obj center)))"

definition prepareObject ::
  "('e, 'g, 'v::minus) three \<Rightarrow> 'v Object3D \<Rightarrow> 'e + 'v Object3D" where
  "prepareObject lib obj = centerObject lib (traverse assignMaterial obj)"

section \<open>File ingestion (handleFile)\<close>

datatype ('g, 'v) ModelPayload = Geometry 'g | Object "'v Object3D"

definition SUPPORTED_EXTENSIONS :: "string list" where
  "SUPPORTED_EXTENSIONS = [''obj'', ''stl'']"

text \<open>
  \<open>s.split(".")\<close>: the pieces of \<open>s\<close> between the separators; never empty, a string
  without separator is its own single piece.
\<close>

fun split :: "char \<Rightarrow> string \<Rightarrow> string list" where
  "split sep [] = [[]]"
| "split sep (c # cs) =
     (if c = sep then [] # split sep cs
      else (case split sep cs of [] \<Rightarrow> [[c]] | w # ws \<Rightarrow> (c # w) # ws))"

text \<open>\<open>array.pop()\<close>: the last element, undefined on an empty array.\<close>

definition pop :: "'a list \<Rightarrow> 'a option" where
  "pop xs = (if xs = [] then None else Some (last xs))"

text \<open>
  \<open>toLowerCase\<close> on the letters A to Z. The other characters are kept; no character
  outside A to Z has a lower-case form among the letters of obj and stl, so the test
  against the supported extensions is the one of the code.
\<close>

definition toLowerCase_char :: "char \<Rightarrow> char" where
  "toLowerCase_char c =
     (let n = (of_char c :: nat) in if 65 \<le> n \<and> n \<le> 90 then char_of (n + 32) else c)"

definition toLowerCase :: "string \<Rightarrow> string" where
  "toLowerCase s = map toLowerCase_char s"

text \<open>\<open>file.name.split(".").pop()?.toLowerCase()\<close>\<close>

definition file_extension :: "string \<Rightarrow> string option" where
  "file_extension nm = map_option toLowerCase (pop (split CHR ''.'' nm))"

text \<open>\<open>!extension || !SUPPORTED_EXTENSIONS.includes(extension)\<close>\<close>

definition unsupported :: "string option \<Rightarrow> bool" where
  "unsupported extension =
     (case extension of
        None \<Rightarrow> True
      | Some ext \<Rightarrow> ext = [] \<or> ext \<notin> set SUPPORTED_EXTENSIONS)"

text \<open>
  A file: its name and what awaiting its content gives, the bytes or the decoded text,
  or a rejection.
\<close>

record 'e File =
  name :: string
  arrayBuffer :: "'e + ArrayBuffer"
  text_content :: "'e + string"

text \<open>
  What a call of handleFile does to the outside, in order: status and model updates,
  parser invocations, and the diagnostic channel (console.error).
\<close>

datatype ('e, 'g, 'v) effect =
    SetStatus string
  | SetModel "('g, 'v) ModelPayload"
  | ParseSTL ArrayBuffer
  | ParseOBJ string
  | ConsoleError 'e

definition catch :: "'e \<Rightarrow> ('e, 'g, 'v) effect list" where
  "catch error =
     [ConsoleError error, SetStatus ''Failed to load model. Check the console for details.'']"

definition load_stl ::
  "('e, 'g, 'v::minus) three \<Rightarrow> 'e File \<Rightarrow> ('e, 'g, 'v) effect list" where
  "load_stl lib file =
     (case arrayBuffer file of
        Inl e \<Rightarrow> catch e
      | Inr buf \<Rightarrow>
          ParseSTL buf #
          (case STLLoader_parse lib buf of
             Inl e \<Rightarrow> catch e
           | Inr geometry \<Rightarrow>
               (case geometry_center lib geometry of
                  Inl e \<Rightarrow> catch e
                | Inr centered \<Rightarrow>
                    [SetModel (Geometry centered), SetStatus (''Loaded '' @ name file)])))"

definition load_obj ::
  "('e, 'g, 'v::minus) three \<Rightarrow> 'e File \<Rightarrow> ('e, 'g, 'v) effect list" where
  "load_obj lib file =
     (case text_content file of
        Inl e \<Rightarrow> catch e
      | Inr txt \<Rightarrow>
          ParseOBJ txt #
          (case OBJLoader_parse lib txt of
             Inl e \<Rightarrow> catch e
           | Inr obj \<Rightarrow>
               (case prepareObject lib obj of
                  Inl e \<Rightarrow> catch e
                | Inr prepared \<Rightarrow>
                    [SetModel (Object prepared), SetStatus (''Loaded '' @ name file)])))"

definition handleFile ::
  "('e, 'g, 'v::minus) three \<Rightarrow> 'e File \<Rightarrow> ('e, 'g, 'v) effect list" where
  "handleFile lib file =
     (let extension = file_extension (name file) in
      if unsupported extension then [SetStatus ''Unsupported file type. Use .obj or .stl.'']
      else
        SetStatus (''Loading '' @ name file @ ''...'') #
        (if extension = Some ''stl'' then load_stl lib file else load_obj lib file))"

text \<open>The state of App that ingestion writes, and the diagnostic channel.\<close>

record ('e, 'g, 'v) App =
  model :: "('g, 'v) ModelPayload option"
  status :: string
  console :: "'e list"

fun perform :: "('e, 'g, 'v) App \<Rightarrow> ('e, 'g, 'v) effect \<Rightarrow> ('e, 'g, 'v) App" where
  "perform app (SetStatus s) = app\<lparr>status := s\<rparr>"
| "perform app (SetModel m) = app\<lparr>model := Some m\<rparr>"
| "perform app (ParseSTL _) = app"
| "perform app (ParseOBJ _) = app"
| "perform app (ConsoleError e) = app\<lparr>console := console app @ [e]\<rparr>"

definition load ::
  "('e, 'g, 'v::minus) three \<Rightarrow> 'e File \<Rightarrow> ('e, 'g, 'v) App \<Rightarrow> ('e, 'g, 'v) App" where
  "load lib file app = foldl perform app (handleFile lib file)"

definition App_init :: "('e, 'g, 'v) App" where
  "App_init = \<lparr>model = None, status = ''Drop an OBJ or STL here, or use the picker.'',
               console = []\<rparr>"

definition is_parser_call :: "('e, 'g, 'v) effect \<Rightarrow> bool" where
  "is_parser_call eff = (case eff of ParseSTL _ \<Rightarrow> True | ParseOBJ _ \<Rightarrow> True | _ \<Rightarrow> False)"

section \<open>Interaction state of the dual-mode variant (Scene)\<close>

text \<open>
  The orbit control object behind \<open>orbitRef\<close>. The library constructs it with
  \<open>enabled = true\<close>; \<open>enableRotate\<close> is a prop, written at every render.
\<close>

record OrbitControls =
  enabled :: bool
  enableRotate :: bool

text \<open>
  What Scene holds: its two props (\<open>hasModel\<close> stands for \<open>model\<close> being non-null),
  the refs, the \<open>transformTarget\<close> state (non-null or not), and the rotation manipulator
  (TransformControls): \<open>None\<close> while it is not rendered, otherwise its dragging flag.
\<close>

record Scene =
  hasModel :: bool
  showGizmo :: bool
  modelRef :: bool
  orbitRef :: "OrbitControls option"
  transformTarget :: bool
  manipulator :: "bool option"

datatype InteractionMode = OrbitOnly | GizmoRotate

definition mode :: "Scene \<Rightarrow> InteractionMode" where
  "mode s = (if showGizmo s then GizmoRotate else OrbitOnly)"

definition DragState :: "Scene \<Rightarrow> bool" where
  "DragState s = (manipulator s = Some True)"

definition isOrbitEnabled :: "Scene \<Rightarrow> bool" where
  "isOrbitEnabled s = (case orbitRef s of None \<Rightarrow> False | Some oc \<Rightarrow> enabled oc)"

text \<open>
  One render pass and its commit. The orbit control is always rendered (created on the
  first pass) and gets \<open>enableRotate = !showGizmo\<close>; the group carrying \<open>modelRef\<close> is
  rendered when there is a model; the manipulator is rendered when there is a model,
  \<open>showGizmo\<close> is on and a target is set. A manipulator that stays rendered keeps its
  flag, a newly rendered one is not dragging, one no longer rendered is gone.
\<close>

definition render :: "Scene \<Rightarrow> Scene" where
  "render s =
     s\<lparr>orbitRef :=
         Some (case orbitRef s of
                 None \<Rightarrow> \<lparr>enabled = True, enableRotate = \<not> showGizmo s\<rparr>
               | Some oc \<Rightarrow> oc\<lparr>enableRotate := \<not> showGizmo s\<rparr>),
       modelRef := hasModel s,
       manipulator :=
         (if hasModel s \<and> showGizmo s \<and> transformTarget s
          then (case manipulator s of None \<Rightarrow> Some False | Some d \<Rightarrow> Some d)
          else None)\<rparr>"

text \<open>
  The effect on \<open>[model]\<close>: \<open>setTransformTarget(modelRef.current)\<close>, then a render.
  The group that carries \<open>modelRef\<close> lives inside the Canvas, which commits its content
  only after the effects of Scene have run: the effect reads the ref as it was before
  the render that triggered it (the state \<open>prev\<close>).
\<close>

definition model_effect :: "Scene \<Rightarrow> Scene \<Rightarrow> Scene" where
  "model_effect prev s = render (s\<lparr>transformTarget := modelRef prev\<rparr>)"

text \<open>The effect on \<open>[showGizmo]\<close>.\<close>

definition showGizmo_effect :: "Scene \<Rightarrow> Scene" where
  "showGizmo_effect s =
     (if \<not> showGizmo s
      then (case orbitRef s of
              None \<Rightarrow> s
            | Some oc \<Rightarrow> s\<lparr>orbitRef := Some (oc\<lparr>enabled := True\<rparr>)\<rparr>)
      else s)"

text \<open>The callback given to the manipulator.\<close>

definition onDraggingChanged :: "bool \<Rightarrow> Scene \<Rightarrow> Scene" where
  "onDraggingChanged v s =
     (case orbitRef s of
        None \<Rightarrow> s
      | Some oc \<Rightarrow> s\<lparr>orbitRef := Some (oc\<lparr>enabled := \<not> v\<rparr>)\<rparr>)"

text \<open>
  A new value of a prop renders Scene and then runs the effect that depends on it; setting
  \<open>showGizmo\<close> to the value it has renders nothing. On the first load the effect on
  \<open>[model]\<close> still finds no group, so the target stays unset and no manipulator is
  rendered; from the second load on the group is there. The orbit control is the same
  object before and after a render, once mounted.
\<close>

definition setModel :: "Scene \<Rightarrow> Scene" where
  "setModel s = model_effect s (render (s\<lparr>hasModel := True\<rparr>))"

definition setShowGizmo :: "bool \<Rightarrow> Scene \<Rightarrow> Scene" where
  "setShowGizmo b s =
     (if b = showGizmo s then s else showGizmo_effect (render (s\<lparr>showGizmo := b\<rparr>)))"

text \<open>
  A drag event comes from a rendered manipulator only: its flag changes and the callback
  runs.
\<close>

definition draggingChanged :: "bool \<Rightarrow> Scene \<Rightarrow> Scene" where
  "draggingChanged v s =
     (case manipulator s of
        None \<Rightarrow> s
      | Some _ \<Rightarrow> onDraggingChanged v (s\<lparr>manipulator := Some v\<rparr>))"

datatype event = ModelLoaded | ToggleGizmo bool | DraggingChanged bool

fun step :: "Scene \<Rightarrow> event \<Rightarrow> Scene" where
  "step s ModelLoaded = setModel s"
| "step s (ToggleGizmo b) = setShowGizmo b s"
| "step s (DraggingChanged v) = draggingChanged v s"

text \<open>
  Before the first render: App starts with no model and \<open>showGizmo = true\<close>. Mounting
  renders once and runs both effects.
\<close>

definition Scene_unmounted :: Scene where
  "Scene_unmounted =
     \<lparr>hasModel = False, showGizmo = True, modelRef = False, orbitRef = None,
      transformTarget = False, manipulator = None\<rparr>"

definition Scene_init :: Scene where
  "Scene_init = showGizmo_effect (model_effect Scene_unmounted (render Scene_unmounted))"

text \<open>The state reached from the mounted scene by a sequence of events.\<close>

definition after :: "event list \<Rightarrow> Scene" where
  "after evs = foldl step Scene_init evs"

section \<open>Notions used to state the properties\<close>

text \<open>The nodes of a hierarchy in traversal order, the root first.\<close>

fun nodes :: "'v Object3D \<Rightarrow> 'v Node list" where
  "nodes (Object3D n cs) = n # concat (map nodes cs)"

text \<open>
  A load that failed: the generic message is the status, the model is the one from
  before, and the error went to the diagnostic channel.
\<close>

definition load_failed :: "'e \<Rightarrow> ('e, 'g, 'v) App \<Rightarrow> ('e, 'g, 'v) App \<Rightarrow> bool" where
  "load_failed e app app' \<longleftrightarrow>
     status app' = ''Failed to load model. Check the console for details.'' \<and>
     model app' = model app \<and> console app' = console app @ [e]"

text \<open>
  The invariant of the interaction state: the orbit control exists, it is enabled exactly
  when the manipulator is not dragging, its rotation follows \<open>showGizmo\<close>, the
  manipulator exists exactly when it is rendered, the group is mounted exactly when there
  is a model, and a target is set only when the group is mounted.
\<close>

definition coherent :: "Scene \<Rightarrow> bool" where
  "coherent s \<longleftrightarrow>
     (case orbitRef s of
        None \<Rightarrow> False
      | Some oc \<Rightarrow> enabled oc = (manipulator s \<noteq> Some True) \<and>
                  enableRotate oc = (\<not> showGizmo s)) \<and>
     (manipulator s \<noteq> None \<longleftrightarrow> hasModel s \<and> showGizmo s \<and> transformTarget s) \<and>
     modelRef s = hasModel s \<and> (transformTarget s \<longrightarrow> modelRef s)"

subsection \<open>Concrete inputs\<close>

text \<open>
  A hierarchy as an OBJ file gives it: a group holding a mesh with a red material, a line
  object with a material of its own, and a nested group with a mesh.
\<close>

definition sample_object :: "int Object3D" where
  "sample_object =
     Object3D \<lparr>isMesh = False, material = None, position = 0\<rparr>
       [Object3D \<lparr>isMesh = True, material = Some (LoaderMaterial ''red''), position = 5\<rparr> [],
        Object3D \<lparr>isMesh = False, material = Some (LoaderMaterial ''blue''), position = 1\<rparr> [],
        Object3D \<lparr>isMesh = False, material = None, position = 2\<rparr>
          [Object3D \<lparr>isMesh = True, material = None, position = 3\<rparr> []]]"

text \<open>The same hierarchy with the uniform material on its meshes and the root moved.\<close>

definition sample_prepared :: "int Object3D" where
  "sample_prepared =
     Object3D \<lparr>isMesh = False, material = None, position = - 2\<rparr>
       [Object3D \<lparr>isMesh = True, material = Some (MeshStandardMaterial ''#c6c6c6'' 0.65 0.1), position = 5\<rparr> [],
        Object3D \<lparr>isMesh = False, material = Some (LoaderMaterial ''blue''), position = 1\<rparr> [],
        Object3D \<lparr>isMesh = False, material = None, position = 2\<rparr>
          [Object3D \<lparr>isMesh = True, material = Some (MeshStandardMaterial ''#c6c6c6'' 0.65 0.1), position = 3\<rparr> []]]"

text \<open>
  Two stand-ins for the library, with integers for coordinates: one whose parsers reject
  empty content and whose other calls succeed, and one whose centering calls throw.
\<close>

definition stub_three :: "(string, int list, int) three" where
  "stub_three =
     \<lparr>STLLoader_parse = (\<lambda>buf. if buf = [] then Inl ''empty file'' else Inr (map of_char buf)),
      geometry_center = (\<lambda>g. Inr g),
      OBJLoader_parse = (\<lambda>txt. if txt = [] then Inl ''empty file'' else Inr sample_object),
      setFromObject = (\<lambda>obj. Inr \<lparr>box_min = 0, box_max = 4\<rparr>),
      getCenter = (\<lambda>box. Inr ((box_min box + box_max box) div 2))\<rparr>"

definition raising_three :: "(string, int list, int) three" where
  "raising_three =
     stub_three\<lparr>geometry_center := (\<lambda>g. Inl ''cannot center''),
                setFromObject := (\<lambda>obj. Inl ''cannot measure'')\<rparr>"

definition sample_file :: "string \<Rightarrow> string \<Rightarrow> string File" where
  "sample_file nm content =
     \<lparr>name = nm, arrayBuffer = Inr content, text_content = Inr content\<rparr>"

definition sample_app :: "(string, int list, int) App" where
  "sample_app = App_init\<lparr>model := Some (Geometry [1, 2, 3])\<rparr>"

subsection \<open>Centering of a geometry\<close>






section \<open>Extension of a file name\<close>

lemma split_not_Nil: "split sep s \<noteq> []"
  by (induction s) (auto split: list.splits)

lemma split_no_sep: "sep \<notin> set s \<Longrightarrow> split sep s = [s]"
  by (induction s) auto

lemma split_append: "split sep (pre @ sep # suf) = split sep pre @ split sep suf"
proof (induction pre)
  case Nil
  show ?case by simp
next
  case (Cons c pre)
  obtain w ws where ws: "split sep pre = w # ws"
    using split_not_Nil [of sep pre] by (cases "split sep pre") auto
  show ?case using Cons ws by simp
qed

text \<open>With a dot in the name, the extension is the lower-cased text after the last dot.\<close>

lemma file_extension_dot:
  "CHR ''.'' \<notin> set suf \<Longrightarrow> file_extension (pre @ CHR ''.'' # suf) = Some (toLowerCase suf)"
  by (simp add: file_extension_def pop_def split_not_Nil split_append split_no_sep)

text \<open>Without a dot, it is the whole lower-cased name.\<close>

lemma file_extension_no_dot:
  "CHR ''.'' \<notin> set nm \<Longrightarrow> file_extension nm = Some (toLowerCase nm)"
  by (simp add: file_extension_def pop_def split_no_sep)

lemma unsupported_iff:
  "unsupported ext \<longleftrightarrow> ext \<notin> {Some ''obj'', Some ''stl''}"
  by (cases ext) (auto simp: unsupported_def SUPPORTED_EXTENSIONS_def)

lemma supported_cases:
  "\<not> unsupported ext \<Longrightarrow> ext = Some ''stl'' \<or> ext = Some ''obj''"
  by (auto simp: unsupported_iff)

section \<open>The branches of handleFile\<close>

lemma handleFile_unsupported:
  "unsupported (file_extension (name file)) \<Longrightarrow>
   handleFile lib file = [SetStatus ''Unsupported file type. Use .obj or .stl.'']"
  by (simp add: handleFile_def)

lemma handleFile_stl:
  "file_extension (name file) = Some ''stl'' \<Longrightarrow>
   handleFile lib file = SetStatus (''Loading '' @ name file @ ''...'') # load_stl lib file"
  by (simp add: handleFile_def unsupported_iff)

lemma handleFile_obj:
  "file_extension (name file) = Some ''obj'' \<Longrightarrow>
   handleFile lib file = SetStatus (''Loading '' @ name file @ ''...'') # load_obj lib file"
  by (simp add: handleFile_def unsupported_iff)

lemma load_stl_raises:
  assumes "arrayBuffer file = Inr buf"
    and "STLLoader_parse lib buf = Inl e \<or>
         (STLLoader_parse lib buf = Inr g \<and> geometry_center lib g = Inl e)"
  shows "load_stl lib file = ParseSTL buf # catch e"
  using assms by (auto simp: load_stl_def)

lemma load_obj_raises:
  assumes "text_content file = Inr txt"
    and "OBJLoader_parse lib txt = Inl e \<or>
         (OBJLoader_parse lib txt = Inr obj \<and> prepareObject lib obj = Inl e)"
  shows "load_obj lib file = ParseOBJ txt # catch e"
  using assms by (auto simp: load_obj_def)

lemma SetModel_load_stl:
  "SetModel m \<in> set (load_stl lib file) \<Longrightarrow>
   \<exists>buf g g'. arrayBuffer file = Inr buf \<and> STLLoader_parse lib buf = Inr g \<and>
     geometry_center lib g = Inr g' \<and> m = Geometry g'"
  by (auto simp: load_stl_def catch_def split: sum.splits)

lemma SetModel_load_obj:
  "SetModel m \<in> set (load_obj lib file) \<Longrightarrow>
   \<exists>txt obj obj'. text_content file = Inr txt \<and> OBJLoader_parse lib txt = Inr obj \<and>
     prepareObject lib obj = Inr obj' \<and> m = Object obj'"
  by (auto simp: load_obj_def catch_def split: sum.splits)

lemma load_caught:
  "handleFile lib file = SetStatus s # p # catch e \<Longrightarrow> is_parser_call p \<Longrightarrow>
   load_failed e app (load lib file app) \<and> (\<forall>m. SetModel m \<notin> set (handleFile lib file))"
  by (cases p) (auto simp: load_def load_failed_def catch_def is_parser_call_def)

lemma load_stl_not_Nil: "load_stl lib file \<noteq> []"
  by (simp add: load_stl_def catch_def split: sum.splits)

lemma load_obj_not_Nil: "load_obj lib file \<noteq> []"
  by (simp add: load_obj_def catch_def split: sum.splits)

lemma handleFile_unsupported_iff:
  "handleFile lib file = [SetStatus ''Unsupported file type. Use .obj or .stl.''] \<longleftrightarrow>
   unsupported (file_extension (name file))"
proof
  assume h: "handleFile lib file = [SetStatus ''Unsupported file type. Use .obj or .stl.'']"
  show "unsupported (file_extension (name file))"
  proof (rule ccontr)
    assume "\<not> unsupported (file_extension (name file))"
    then consider "file_extension (name file) = Some ''stl''"
      | "file_extension (name file) = Some ''obj''"
      using supported_cases by blast
    then show False
    proof cases
      case 1
      then show False using h load_stl_not_Nil [of lib "file"] by (simp add: handleFile_stl)
    next
      case 2
      then show False using h load_obj_not_Nil [of lib "file"] by (simp add: handleFile_obj)
    qed
  qed
next
  assume "unsupported (file_extension (name file))"
  then show "handleFile lib file = [SetStatus ''Unsupported file type. Use .obj or .stl.'']"
    by (rule handleFile_unsupported)
qed

section \<open>The material pass\<close>

lemma nodes_traverse: "nodes (traverse f obj) = map f (nodes obj)"
proof (induction obj)
  case (Object3D n cs)
  then have h: "map (nodes \<circ> traverse f) cs = map (map f \<circ> nodes) cs"
    by simp
  show ?case by (simp add: map_concat h)
qed

lemma nodes_position_sub:
  "nodes (position_sub obj c) =
     (node obj)\<lparr>position := position (node obj) - c\<rparr> # tl (nodes obj)"
  by (cases obj) (simp add: position_sub_def)

lemma nodes_Cons: "nodes obj = node obj # tl (nodes obj)"
  by (cases obj) simp

lemma prepareObject_nodes:
  assumes "prepareObject lib obj = Inr obj'"
  shows "\<exists>c. nodes obj' =
           (assignMaterial (node obj))\<lparr>position := position (node obj) - c\<rparr> #
           map assignMaterial (tl (nodes obj))"
proof -
  let ?t = "traverse assignMaterial obj"
  from assms obtain c where "obj' = position_sub ?t c"
    by (auto simp: prepareObject_def centerObject_def split: sum.splits)
  then have "nodes obj' = (node ?t)\<lparr>position := position (node ?t) - c\<rparr> # tl (nodes ?t)"
    by (simp add: nodes_position_sub)
  moreover have "node ?t = assignMaterial (node obj)"
    by (cases obj) simp
  moreover have "position (assignMaterial (node obj)) = position (node obj)"
    by (simp add: assignMaterial_def)
  ultimately show ?thesis by (auto simp: nodes_traverse map_tl)
qed

lemma prepareObject_sample: "prepareObject stub_three sample_object = Inr sample_prepared"
  by (simp add: prepareObject_def centerObject_def stub_three_def sample_object_def
      sample_prepared_def assignMaterial_def uniformMaterial_def position_sub_def)

section \<open>Centering twice\<close>














section \<open>The invariant of the interaction state\<close>

lemma coherent_init: "coherent Scene_init"
  by (simp add: coherent_def Scene_init_def Scene_unmounted_def render_def model_effect_def
      showGizmo_effect_def)

lemma coherent_setModel: "coherent s \<Longrightarrow> coherent (setModel s)"
  by (auto simp: coherent_def setModel_def render_def model_effect_def split: option.splits)

lemma coherent_setShowGizmo: "coherent s \<Longrightarrow> coherent (setShowGizmo b s)"
  by (auto simp: coherent_def setShowGizmo_def render_def showGizmo_effect_def
      split: option.splits)

lemma coherent_draggingChanged: "coherent s \<Longrightarrow> coherent (draggingChanged v s)"
  by (auto simp: coherent_def draggingChanged_def onDraggingChanged_def split: option.splits)

lemma coherent_step: "coherent s \<Longrightarrow> coherent (step s ev)"
  by (cases ev) (simp_all add: coherent_setModel coherent_setShowGizmo coherent_draggingChanged)

lemma coherent_foldl: "coherent s \<Longrightarrow> coherent (foldl step s evs)"
  by (induction evs arbitrary: s) (simp_all add: coherent_step)

lemma coherent_after: "coherent (after evs)"
  by (simp add: after_def coherent_foldl coherent_init)

lemma coherent_orbit: "coherent s \<Longrightarrow> isOrbitEnabled s = (\<not> DragState s)"
  by (auto simp: coherent_def isOrbitEnabled_def DragState_def split: option.splits)

lemma setShowGizmo_False:
  "showGizmo s \<Longrightarrow> orbitRef s \<noteq> None \<Longrightarrow>
   isOrbitEnabled (setShowGizmo False s) \<and> mode (setShowGizmo False s) = OrbitOnly"
  by (auto simp: setShowGizmo_def render_def showGizmo_effect_def isOrbitEnabled_def mode_def
      split: option.splits)

section \<open>Claims about file ingestion\<close>

text \<open>
  C2. A file whose extension, compared without regard to case, is neither obj nor stl is
  rejected: the only thing handleFile does is to set the status to
  "Unsupported file type. Use .obj or .stl."; no parser is invoked, and the current model is
  the one from before the call. The extension is the text after the last dot of the name;
  a name without a dot is covered when the name itself is not one of the two words.
\<close>

theorem unsupported_extension_rejected:
  assumes "(name file = pre @ CHR ''.'' # suf \<and> CHR ''.'' \<notin> set suf \<and>
            toLowerCase suf \<notin> {''obj'', ''stl''}) \<or>
           (CHR ''.'' \<notin> set (name file) \<and> toLowerCase (name file) \<notin> {''obj'', ''stl''})"
  shows "handleFile lib file = [SetStatus ''Unsupported file type. Use .obj or .stl.''] \<and>
         filter is_parser_call (handleFile lib file) = [] \<and>
         status (load lib file app) = ''Unsupported file type. Use .obj or .stl.'' \<and>
         model (load lib file app) = model app \<and>
         console (load lib file app) = console app"
proof -
  from assms have "file_extension (name file) \<notin> {Some ''obj'', Some ''stl''}"
    by (auto simp: file_extension_dot file_extension_no_dot)
  then have "unsupported (file_extension (name file))"
    by (simp add: unsupported_iff)
  then have "handleFile lib file = [SetStatus ''Unsupported file type. Use .obj or .stl.'']"
    by (rule handleFile_unsupported)
  then show ?thesis by (simp add: load_def is_parser_call_def)
qed

theorem unsupported_extension_rejected_witness:
  "name (sample_file ''notes.txt'' ''hello'') = ''notes'' @ CHR ''.'' # ''txt'' \<and>
   CHR ''.'' \<notin> set ''txt'' \<and> toLowerCase ''txt'' \<notin> {''obj'', ''stl''} \<and>
   handleFile stub_three (sample_file ''notes.txt'' ''hello'') =
     [SetStatus ''Unsupported file type. Use .obj or .stl.''] \<and>
   filter is_parser_call (handleFile stub_three (sample_file ''notes.txt'' ''hello'')) = [] \<and>
   status (load stub_three (sample_file ''notes.txt'' ''hello'') sample_app) =
     ''Unsupported file type. Use .obj or .stl.'' \<and>
   model (load stub_three (sample_file ''notes.txt'' ''hello'') sample_app) =
     Some (Geometry [1, 2, 3])"
proof -
  have n: "name (sample_file ''notes.txt'' ''hello'') = ''notes'' @ CHR ''.'' # ''txt''"
    by (simp add: sample_file_def)
  have d: "CHR ''.'' \<notin> set ''txt''" by simp
  have l: "toLowerCase ''txt'' \<notin> {''obj'', ''stl''}" by code_simp
  have m: "model sample_app = Some (Geometry [1, 2, 3])"
    by (simp add: sample_app_def)
  have c: "handleFile stub_three (sample_file ''notes.txt'' ''hello'') =
       [SetStatus ''Unsupported file type. Use .obj or .stl.''] \<and>
     filter is_parser_call (handleFile stub_three (sample_file ''notes.txt'' ''hello'')) = [] \<and>
     status (load stub_three (sample_file ''notes.txt'' ''hello'') sample_app) =
       ''Unsupported file type. Use .obj or .stl.'' \<and>
     model (load stub_three (sample_file ''notes.txt'' ''hello'') sample_app) = model sample_app"
    using unsupported_extension_rejected
      [of "sample_file ''notes.txt'' ''hello''" "''notes''" "''txt''" stub_three sample_app]
      n d l by blast
  from n d l c show ?thesis unfolding m by blast
qed

text \<open>
  C3. For a file with a supported extension: when the parser raises, or the parser returns
  and the normalizer (geometry centering for STL, prepareObject for OBJ) raises, the error
  is caught inside handleFile; the status becomes the generic failure message, the error
  itself goes to the console only, and the model is unchanged, since no model update
  happens in that call. Whenever a call does update the model, the parser and the
  normalizer both returned, and the new model is the normalizer's result.
\<close>

theorem raise_caught_model_kept:
  assumes "\<not> unsupported (file_extension (name file))"
  shows "(file_extension (name file) = Some ''stl'' \<and> arrayBuffer file = Inr buf \<and>
          (STLLoader_parse lib buf = Inl e \<or>
           (STLLoader_parse lib buf = Inr g \<and> geometry_center lib g = Inl e))
          \<longrightarrow> load_failed e app (load lib file app) \<and>
              (\<forall>m. SetModel m \<notin> set (handleFile lib file))) \<and>
         (file_extension (name file) = Some ''obj'' \<and> text_content file = Inr txt \<and>
          (OBJLoader_parse lib txt = Inl e \<or>
           (OBJLoader_parse lib txt = Inr obj \<and> prepareObject lib obj = Inl e))
          \<longrightarrow> load_failed e app (load lib file app) \<and>
              (\<forall>m. SetModel m \<notin> set (handleFile lib file))) \<and>
         (SetModel m \<in> set (handleFile lib file) \<longrightarrow>
            (\<exists>buf g g'. arrayBuffer file = Inr buf \<and> STLLoader_parse lib buf = Inr g \<and>
               geometry_center lib g = Inr g' \<and> m = Geometry g') \<or>
            (\<exists>txt obj obj'. text_content file = Inr txt \<and> OBJLoader_parse lib txt = Inr obj \<and>
               prepareObject lib obj = Inr obj' \<and> m = Object obj'))"
proof (intro conjI impI)
  assume "file_extension (name file) = Some ''stl'' \<and> arrayBuffer file = Inr buf \<and>
          (STLLoader_parse lib buf = Inl e \<or>
           (STLLoader_parse lib buf = Inr g \<and> geometry_center lib g = Inl e))"
  then have "handleFile lib file =
      SetStatus (''Loading '' @ name file @ ''...'') # ParseSTL buf # catch e"
    using load_stl_raises [of "file" "buf" "lib" "e" "g"] by (simp add: handleFile_stl)
  then show "load_failed e app (load lib file app)"
    "\<forall>m. SetModel m \<notin> set (handleFile lib file)"
    using load_caught [of "lib" "file" _ "ParseSTL buf" "e" "app"]
    by (simp_all add: is_parser_call_def)
next
  assume "file_extension (name file) = Some ''obj'' \<and> text_content file = Inr txt \<and>
          (OBJLoader_parse lib txt = Inl e \<or>
           (OBJLoader_parse lib txt = Inr obj \<and> prepareObject lib obj = Inl e))"
  then have "handleFile lib file =
      SetStatus (''Loading '' @ name file @ ''...'') # ParseOBJ txt # catch e"
    using load_obj_raises [of "file" "txt" "lib" "e" "obj"] by (simp add: handleFile_obj)
  then show "load_failed e app (load lib file app)"
    "\<forall>m. SetModel m \<notin> set (handleFile lib file)"
    using load_caught [of "lib" "file" _ "ParseOBJ txt" "e" "app"]
    by (simp_all add: is_parser_call_def)
next
  assume m: "SetModel m \<in> set (handleFile lib file)"
  from assms consider "file_extension (name file) = Some ''stl''"
    | "file_extension (name file) = Some ''obj''"
    using supported_cases by blast
  then show "(\<exists>buf g g'. arrayBuffer file = Inr buf \<and> STLLoader_parse lib buf = Inr g \<and>
               geometry_center lib g = Inr g' \<and> m = Geometry g') \<or>
            (\<exists>txt obj obj'. text_content file = Inr txt \<and> OBJLoader_parse lib txt = Inr obj \<and>
               prepareObject lib obj = Inr obj' \<and> m = Object obj')"
  proof cases
    case 1
    with m have "SetModel m \<in> set (load_stl lib file)" by (simp add: handleFile_stl)
    then show ?thesis using SetModel_load_stl by blast
  next
    case 2
    with m have "SetModel m \<in> set (load_obj lib file)" by (simp add: handleFile_obj)
    then show ?thesis using SetModel_load_obj by blast
  qed
qed

theorem raise_caught_model_kept_witness:
  "(\<not> unsupported (file_extension (name (sample_file ''empty.stl'' []))) \<and>
    file_extension (name (sample_file ''empty.stl'' [])) = Some ''stl'' \<and>
    arrayBuffer (sample_file ''empty.stl'' []) = Inr [] \<and>
    STLLoader_parse stub_three [] = Inl ''empty file'' \<and>
    load_failed ''empty file'' sample_app (load stub_three (sample_file ''empty.stl'' []) sample_app)) \<and>
   (\<not> unsupported (file_extension (name (sample_file ''scene.obj'' ''v 0 0 0''))) \<and>
    file_extension (name (sample_file ''scene.obj'' ''v 0 0 0'')) = Some ''obj'' \<and>
    text_content (sample_file ''scene.obj'' ''v 0 0 0'') = Inr ''v 0 0 0'' \<and>
    OBJLoader_parse raising_three ''v 0 0 0'' = Inr sample_object \<and>
    prepareObject raising_three sample_object = Inl ''cannot measure'' \<and>
    load_failed ''cannot measure'' sample_app
      (load raising_three (sample_file ''scene.obj'' ''v 0 0 0'') sample_app)) \<and>
   (\<not> unsupported (file_extension (name (sample_file ''Cube.STL'' ''solid''))) \<and>
    SetModel (Geometry (map of_char ''solid'')) \<in>
      set (handleFile stub_three (sample_file ''Cube.STL'' ''solid'')) \<and>
    (\<exists>g. STLLoader_parse stub_three ''solid'' = Inr g \<and>
         geometry_center stub_three g = Inr (map of_char ''solid'')))"
proof -
  have s1: "\<not> unsupported (file_extension (name (sample_file ''empty.stl'' [])))"
    and e1: "file_extension (name (sample_file ''empty.stl'' [])) = Some ''stl''"
    and a1: "arrayBuffer (sample_file ''empty.stl'' []) = Inr []"
    and p1: "STLLoader_parse stub_three [] = Inl ''empty file''"
    by code_simp+
  have s2: "\<not> unsupported (file_extension (name (sample_file ''scene.obj'' ''v 0 0 0'')))"
    and e2: "file_extension (name (sample_file ''scene.obj'' ''v 0 0 0'')) = Some ''obj''"
    and a2: "text_content (sample_file ''scene.obj'' ''v 0 0 0'') = Inr ''v 0 0 0''"
    and p2: "OBJLoader_parse raising_three ''v 0 0 0'' = Inr sample_object"
    and n2: "prepareObject raising_three sample_object = Inl ''cannot measure''"
    by code_simp+
  have s3: "\<not> unsupported (file_extension (name (sample_file ''Cube.STL'' ''solid'')))"
    and m3: "SetModel (Geometry (map of_char ''solid'')) \<in>
      set (handleFile stub_three (sample_file ''Cube.STL'' ''solid''))"
    by code_simp+
  have c1: "load_failed ''empty file'' sample_app
      (load stub_three (sample_file ''empty.stl'' []) sample_app)"
    using raise_caught_model_kept [OF s1, of "[]" stub_three "''empty file''" _ sample_app]
      e1 a1 p1 by blast
  have c2: "load_failed ''cannot measure'' sample_app
      (load raising_three (sample_file ''scene.obj'' ''v 0 0 0'') sample_app)"
    using raise_caught_model_kept
        [OF s2, of _ raising_three "''cannot measure''" _ sample_app "''v 0 0 0''" sample_object]
      e2 a2 p2 n2 by blast
  have c3: "\<exists>g. STLLoader_parse stub_three ''solid'' = Inr g \<and>
         geometry_center stub_three g = Inr (map of_char ''solid'')"
    using raise_caught_model_kept
        [OF s3, of _ stub_three _ _ _ _ _ "Geometry (map of_char ''solid'')"] m3
    by (auto simp: sample_file_def)
  from s1 e1 a1 p1 c1 s2 e2 a2 p2 n2 c2 s3 m3 c3 show ?thesis by blast
qed

text \<open>
  C7, as stated, fails for a name without a dot: \<open>split\<close> gives the whole name as
  its only piece, so the name itself is taken for the extension. A file named "obj" is
  classified as an OBJ file, parsed and loaded.
\<close>

theorem dotless_name_accepted:
  "CHR ''.'' \<notin> set (name (sample_file ''obj'' ''v 0 0 0'')) \<and>
   file_extension (name (sample_file ''obj'' ''v 0 0 0'')) = Some ''obj'' \<and>
   \<not> unsupported (file_extension (name (sample_file ''obj'' ''v 0 0 0''))) \<and>
   handleFile stub_three (sample_file ''obj'' ''v 0 0 0'') =
     [SetStatus ''Loading obj...'', ParseOBJ ''v 0 0 0'',
      SetModel (Object sample_prepared),
      SetStatus ''Loaded obj'']"
proof -
  have d: "CHR ''.'' \<notin> set (name (sample_file ''obj'' ''v 0 0 0''))"
    by (simp add: sample_file_def)
  have e: "file_extension (name (sample_file ''obj'' ''v 0 0 0'')) = Some ''obj''"
    by code_simp
  have p: "OBJLoader_parse stub_three ''v 0 0 0'' = Inr sample_object"
    by (simp add: stub_three_def)
  have "load_obj stub_three (sample_file ''obj'' ''v 0 0 0'') =
     [ParseOBJ ''v 0 0 0'',
      SetModel (Object sample_prepared),
      SetStatus ''Loaded obj'']"
    by (simp add: load_obj_def sample_file_def p prepareObject_sample)
  then have h: "handleFile stub_three (sample_file ''obj'' ''v 0 0 0'') =
     [SetStatus ''Loading obj...'', ParseOBJ ''v 0 0 0'',
      SetModel (Object sample_prepared),
      SetStatus ''Loaded obj'']"
    using handleFile_obj [OF e, of stub_three] by (simp add: sample_file_def)
  from e have u: "\<not> unsupported (file_extension (name (sample_file ''obj'' ''v 0 0 0'')))"
    by (simp add: unsupported_iff)
  from d e u h show ?thesis by blast
qed

text \<open>
  C7, amended. What is compared against obj and stl is the lower-cased last piece of the
  name between dots: the text after the last dot when the name has one, the whole name
  when it has none. A file is rejected as unsupported exactly when that piece is neither
  obj nor stl; so a name without a dot is rejected unless it is itself obj or stl up to
  case.
\<close>

theorem extension_is_last_piece:
  "(CHR ''.'' \<notin> set suf \<longrightarrow>
      file_extension (pre @ CHR ''.'' # suf) = Some (toLowerCase suf)) \<and>
   (CHR ''.'' \<notin> set nm \<longrightarrow> file_extension nm = Some (toLowerCase nm)) \<and>
   (handleFile lib file = [SetStatus ''Unsupported file type. Use .obj or .stl.''] \<longleftrightarrow>
      file_extension (name file) \<notin> {Some ''obj'', Some ''stl''})"
  by (simp add: file_extension_dot file_extension_no_dot handleFile_unsupported_iff
      unsupported_iff)

theorem extension_is_last_piece_witness:
  "CHR ''.'' \<notin> set ''STL'' \<and>
   file_extension (''my.Cube'' @ CHR ''.'' # ''STL'') = Some ''stl'' \<and>
   CHR ''.'' \<notin> set ''README'' \<and>
   file_extension ''README'' = Some ''readme'' \<and>
   file_extension (name (sample_file ''README'' ''hello'')) \<notin> {Some ''obj'', Some ''stl''} \<and>
   handleFile stub_three (sample_file ''README'' ''hello'') =
     [SetStatus ''Unsupported file type. Use .obj or .stl.'']"
proof -
  have a: "CHR ''.'' \<notin> set ''STL''" "CHR ''.'' \<notin> set ''README''"
    by simp_all
  have l: "toLowerCase ''STL'' = ''stl''" "toLowerCase ''README'' = ''readme''"
    by code_simp+
  have u: "file_extension (name (sample_file ''README'' ''hello'')) \<notin> {Some ''obj'', Some ''stl''}"
    by code_simp
  show ?thesis
    using a l u
      extension_is_last_piece
        [of "''STL''" "''my.Cube''" "''README''" stub_three "sample_file ''README'' ''hello''"]
    by simp
qed

text \<open>
  C8, as stated, fails for an unsupported file: the file notes.txt gets the unsupported
  message as its only effect, and the status "Loading notes.txt..." is never set.
\<close>

theorem unsupported_load_skips_loading:
  "handleFile stub_three (sample_file ''notes.txt'' ''hello'') =
     [SetStatus ''Unsupported file type. Use .obj or .stl.''] \<and>
   SetStatus ''Loading notes.txt...'' \<notin> set (handleFile stub_three (sample_file ''notes.txt'' ''hello''))"
proof -
  have "file_extension (name (sample_file ''notes.txt'' ''hello'')) = Some ''txt''"
    by code_simp
  then have "unsupported (file_extension (name (sample_file ''notes.txt'' ''hello'')))"
    by (simp add: unsupported_iff)
  then have "handleFile stub_three (sample_file ''notes.txt'' ''hello'') =
     [SetStatus ''Unsupported file type. Use .obj or .stl.'']"
    by (rule handleFile_unsupported)
  then show ?thesis by simp
qed

text \<open>
  C8, amended. A load of a file classified as supported (extension obj or stl) first sets
  the status to "Loading <name>..."; a load of any other file sets the unsupported message
  and does nothing else, so it never passes through the loading status.
\<close>

theorem loading_first_when_supported:
  "(file_extension (name file) \<in> {Some ''obj'', Some ''stl''} \<longrightarrow>
      (\<exists>rest. handleFile lib file = SetStatus (''Loading '' @ name file @ ''...'') # rest)) \<and>
   (file_extension (name file) \<notin> {Some ''obj'', Some ''stl''} \<longrightarrow>
      handleFile lib file = [SetStatus ''Unsupported file type. Use .obj or .stl.''])"
proof (intro conjI impI)
  assume "file_extension (name file) \<in> {Some ''obj'', Some ''stl''}"
  then show "\<exists>rest. handleFile lib file = SetStatus (''Loading '' @ name file @ ''...'') # rest"
    using handleFile_obj [of "file" "lib"] handleFile_stl [of "file" "lib"] by auto
next
  assume "file_extension (name file) \<notin> {Some ''obj'', Some ''stl''}"
  then show "handleFile lib file = [SetStatus ''Unsupported file type. Use .obj or .stl.'']"
    by (simp add: handleFile_unsupported unsupported_iff)
qed

theorem loading_first_when_supported_witness:
  "file_extension (name (sample_file ''Cube.STL'' ''solid'')) \<in> {Some ''obj'', Some ''stl''} \<and>
   (\<exists>rest. handleFile stub_three (sample_file ''Cube.STL'' ''solid'') =
      SetStatus (''Loading '' @ name (sample_file ''Cube.STL'' ''solid'') @ ''...'') # rest) \<and>
   file_extension (name (sample_file ''a.b.'' ''solid'')) \<notin> {Some ''obj'', Some ''stl''} \<and>
   handleFile stub_three (sample_file ''a.b.'' ''solid'') =
     [SetStatus ''Unsupported file type. Use .obj or .stl.'']"
proof -
  have a: "file_extension (name (sample_file ''Cube.STL'' ''solid'')) \<in> {Some ''obj'', Some ''stl''}"
    by code_simp
  have b: "file_extension (name (sample_file ''a.b.'' ''solid'')) \<notin> {Some ''obj'', Some ''stl''}"
    by code_simp
  show ?thesis
    using a b loading_first_when_supported [of "sample_file ''Cube.STL'' ''solid''" stub_three]
      loading_first_when_supported [of "sample_file ''a.b.'' ''solid''" stub_three]
    by blast
qed

section \<open>Claims about the normalizer\<close>

text \<open>
  C5. After prepareObject has returned, every mesh node of the hierarchy carries the
  fixed material, a MeshStandardMaterial of color #c6c6c6 (gray), roughness 0.65 and
  metalness 0.1, whatever material it had; the nodes are the same in number and kind, a
  node that is not a mesh keeps its material, and below the root every node that is not a
  mesh is unchanged in every field (the root is the node that centering moves).
\<close>

theorem prepareObject_uniform_material:
  assumes "prepareObject lib obj = Inr obj'"
  shows "(\<forall>n \<in> set (nodes obj').
            isMesh n \<longrightarrow> material n = Some (MeshStandardMaterial ''#c6c6c6'' 0.65 0.1)) \<and>
         list_all2 (\<lambda>n n'. isMesh n' = isMesh n \<and>
                      material n' =
                        (if isMesh n then Some (MeshStandardMaterial ''#c6c6c6'' 0.65 0.1)
                         else material n))
           (nodes obj) (nodes obj') \<and>
         list_all2 (\<lambda>n n'. n' =
                      (if isMesh n
                       then n\<lparr>material := Some (MeshStandardMaterial ''#c6c6c6'' 0.65 0.1)\<rparr>
                       else n))
           (tl (nodes obj)) (tl (nodes obj'))"
proof -
  let ?gray = "MeshStandardMaterial ''#c6c6c6'' 0.65 0.1"
  have g: "uniformMaterial = ?gray"
    by (simp add: uniformMaterial_def)
  from prepareObject_nodes [OF assms] obtain c where
    n': "nodes obj' = (assignMaterial (node obj))\<lparr>position := position (node obj) - c\<rparr> #
           map assignMaterial (tl (nodes obj))" ..
  have a: "\<forall>n \<in> set (nodes obj'). isMesh n \<longrightarrow> material n = Some ?gray"
    unfolding n' by (auto simp: assignMaterial_def g split: if_splits)
  have t: "list_all2 (\<lambda>n n'. n' = (if isMesh n then n\<lparr>material := Some ?gray\<rparr> else n))
           (tl (nodes obj)) (tl (nodes obj'))"
    unfolding n' by (simp add: list_all2_map2 list_all2_same assignMaterial_def g)
  have "list_all2 (\<lambda>n n'. isMesh n' = isMesh n \<and>
                      material n' = (if isMesh n then Some ?gray else material n))
           (node obj # tl (nodes obj)) (nodes obj')"
    unfolding n' by (simp add: list_all2_map2 list_all2_same assignMaterial_def g)
  then have b: "list_all2 (\<lambda>n n'. isMesh n' = isMesh n \<and>
                      material n' = (if isMesh n then Some ?gray else material n))
           (nodes obj) (nodes obj')"
    using nodes_Cons [of obj] by simp
  from a b t show ?thesis by blast
qed

theorem prepareObject_uniform_material_witness:
  "prepareObject stub_three sample_object = Inr sample_prepared \<and>
   isMesh (nodes sample_prepared ! 1) \<and>
   material (nodes sample_object ! 1) = Some (LoaderMaterial ''red'') \<and>
   material (nodes sample_prepared ! 1) = Some (MeshStandardMaterial ''#c6c6c6'' 0.65 0.1) \<and>
   material (nodes sample_prepared ! 1) \<noteq> material (nodes sample_object ! 1) \<and>
   color (the (material (nodes sample_prepared ! 1))) = ''#c6c6c6'' \<and>
   roughness (the (material (nodes sample_prepared ! 1))) = 65 / 100 \<and>
   metalness (the (material (nodes sample_prepared ! 1))) = 1 / 10 \<and>
   \<not> isMesh (nodes sample_object ! 2) \<and>
   nodes sample_prepared ! 2 = nodes sample_object ! 2"
proof -
  let ?gray = "MeshStandardMaterial ''#c6c6c6'' 0.65 0.1"
  have i: "nodes sample_prepared ! 1 \<in> set (nodes sample_prepared)"
    and k: "isMesh (nodes sample_prepared ! 1)"
    by (simp_all add: sample_prepared_def)
  have "\<forall>n \<in> set (nodes sample_prepared). isMesh n \<longrightarrow> material n = Some ?gray"
    using prepareObject_uniform_material [OF prepareObject_sample] by (rule conjunct1)
  with i k have m: "material (nodes sample_prepared ! 1) = Some ?gray"
    by blast
  have r: "material (nodes sample_object ! 1) = Some (LoaderMaterial ''red'')"
    "\<not> isMesh (nodes sample_object ! 2)"
    "nodes sample_prepared ! 2 = nodes sample_object ! 2"
    by (simp_all add: sample_object_def sample_prepared_def)
  have d: "material (nodes sample_prepared ! 1) \<noteq> material (nodes sample_object ! 1)"
    unfolding m r(1) by simp
  have f: "color (the (material (nodes sample_prepared ! 1))) = ''#c6c6c6''"
    "roughness (the (material (nodes sample_prepared ! 1))) = 65 / 100"
    "metalness (the (material (nodes sample_prepared ! 1))) = 1 / 10"
    unfolding m by simp_all
  from prepareObject_sample k m r d f show ?thesis by blast
qed



section \<open>Claims about the interaction state\<close>

text \<open>
  C1. In every state that the mounted scene reaches by model loads, mode toggles and drag
  events of the manipulator: while the manipulator is dragging, the orbit control is not
  enabled; and when it is not dragging and the mode is GizmoRotate, the orbit control is
  enabled. DragState is the dragging flag of the rendered manipulator; a manipulator that
  is not rendered is not dragging. A drag can begin only once a target is set, that is
  after the second load.
\<close>

theorem orbit_suspended_while_dragging:
  "(DragState (after evs) \<longrightarrow> \<not> isOrbitEnabled (after evs)) \<and>
   (\<not> DragState (after evs) \<and> mode (after evs) = GizmoRotate \<longrightarrow> isOrbitEnabled (after evs))"
  using coherent_orbit [OF coherent_after, of evs] by simp

theorem orbit_suspended_while_dragging_witness:
  "DragState (after [ModelLoaded, ModelLoaded, DraggingChanged True]) \<and>
   \<not> isOrbitEnabled (after [ModelLoaded, ModelLoaded, DraggingChanged True]) \<and>
   \<not> DragState (after [ModelLoaded, ModelLoaded, DraggingChanged True, DraggingChanged False]) \<and>
   mode (after [ModelLoaded, ModelLoaded, DraggingChanged True, DraggingChanged False]) = GizmoRotate \<and>
   isOrbitEnabled (after [ModelLoaded, ModelLoaded, DraggingChanged True, DraggingChanged False])"
proof -
  have d: "DragState (after [ModelLoaded, ModelLoaded, DraggingChanged True])"
    by code_simp
  have n: "\<not> DragState (after [ModelLoaded, ModelLoaded, DraggingChanged True, DraggingChanged False])"
    by code_simp
  have g: "mode (after [ModelLoaded, ModelLoaded, DraggingChanged True, DraggingChanged False]) = GizmoRotate"
    by code_simp
  show ?thesis
    using d n g orbit_suspended_while_dragging [of "[ModelLoaded, ModelLoaded, DraggingChanged True]"]
      orbit_suspended_while_dragging
        [of "[ModelLoaded, ModelLoaded, DraggingChanged True, DraggingChanged False]"]
    by blast
qed

text \<open>
  C6. Switching from GizmoRotate to OrbitOnly leaves the orbit control enabled, whatever
  the dragging flag and the enabled flag were before: in any state in which the orbit
  control exists, and so in every state the mounted scene reaches, a drag in progress
  included.
\<close>

theorem switch_to_orbit_only_enables_orbit:
  "(mode s = GizmoRotate \<and> orbitRef s \<noteq> None \<longrightarrow>
      isOrbitEnabled (setShowGizmo False s) \<and> mode (setShowGizmo False s) = OrbitOnly) \<and>
   (mode (after evs) = GizmoRotate \<longrightarrow>
      isOrbitEnabled (step (after evs) (ToggleGizmo False)) \<and>
      mode (step (after evs) (ToggleGizmo False)) = OrbitOnly)"
proof (intro conjI impI)
  assume "mode s = GizmoRotate \<and> orbitRef s \<noteq> None"
  then have "showGizmo s" "orbitRef s \<noteq> None"
    by (auto simp: mode_def split: if_splits)
  then show "isOrbitEnabled (setShowGizmo False s)" "mode (setShowGizmo False s) = OrbitOnly"
    using setShowGizmo_False by blast+
next
  assume "mode (after evs) = GizmoRotate"
  then have g: "showGizmo (after evs)"
    by (auto simp: mode_def split: if_splits)
  have "orbitRef (after evs) \<noteq> None"
    using coherent_after [of evs] by (auto simp: coherent_def split: option.splits)
  with g show "isOrbitEnabled (step (after evs) (ToggleGizmo False))"
    "mode (step (after evs) (ToggleGizmo False)) = OrbitOnly"
    using setShowGizmo_False by simp_all
qed

theorem switch_to_orbit_only_enables_orbit_witness:
  "mode (after [ModelLoaded, ModelLoaded, DraggingChanged True]) = GizmoRotate \<and>
   orbitRef (after [ModelLoaded, ModelLoaded, DraggingChanged True]) \<noteq> None \<and>
   DragState (after [ModelLoaded, ModelLoaded, DraggingChanged True]) \<and>
   \<not> isOrbitEnabled (after [ModelLoaded, ModelLoaded, DraggingChanged True]) \<and>
   isOrbitEnabled (setShowGizmo False (after [ModelLoaded, ModelLoaded, DraggingChanged True])) \<and>
   isOrbitEnabled (step (after [ModelLoaded, ModelLoaded, DraggingChanged True]) (ToggleGizmo False))"
proof -
  have m: "mode (after [ModelLoaded, ModelLoaded, DraggingChanged True]) = GizmoRotate"
    by code_simp
  have r: "orbitRef (after [ModelLoaded, ModelLoaded, DraggingChanged True]) \<noteq> None"
    by code_simp
  have d: "DragState (after [ModelLoaded, ModelLoaded, DraggingChanged True])"
    by code_simp
  have n: "\<not> isOrbitEnabled (after [ModelLoaded, ModelLoaded, DraggingChanged True])"
    by code_simp
  show ?thesis
    using m r d n
      switch_to_orbit_only_enables_orbit
        [of "after [ModelLoaded, ModelLoaded, DraggingChanged True]" "[ModelLoaded, ModelLoaded, DraggingChanged True]"]
    by blast
qed

text \<open>
  C10. In every state the mounted scene reaches, the rotate capability of the orbit control
  is the negation of \<open>showGizmo\<close>: in gizmo mode it is off, also while no drag is in
  progress and the control is enabled; it is on in orbit-only mode only.
\<close>

theorem enableRotate_follows_mode:
  "map_option enableRotate (orbitRef (after evs)) = Some (\<not> showGizmo (after evs))"
  using coherent_after [of evs] by (auto simp: coherent_def split: option.splits)

theorem enableRotate_follows_mode_witness:
  "showGizmo (after [ModelLoaded]) \<and> \<not> DragState (after [ModelLoaded]) \<and>
   isOrbitEnabled (after [ModelLoaded]) \<and>
   map_option enableRotate (orbitRef (after [ModelLoaded])) = Some False \<and>
   \<not> showGizmo (after [ModelLoaded, ToggleGizmo False]) \<and>
   map_option enableRotate (orbitRef (after [ModelLoaded, ToggleGizmo False])) = Some True"
proof -
  have a: "showGizmo (after [ModelLoaded])" "\<not> DragState (after [ModelLoaded])"
    "isOrbitEnabled (after [ModelLoaded])" "\<not> showGizmo (after [ModelLoaded, ToggleGizmo False])"
    by code_simp+
  show ?thesis
    using a enableRotate_follows_mode [of "[ModelLoaded]"]
      enableRotate_follows_mode [of "[ModelLoaded, ToggleGizmo False]"]
    by simp
qed

end
